theory Spec2Isabelle
  imports Main "HOL-Library.Word"
begin

section \<open>Per-peer metrics of the crawler (package metrics, peer.go)\<close>

subsection \<open>Library values the peer is built from\<close>

text \<open>
  A \<^verbatim>\<open>time.Time\<close> is an instant on one time line, counted in nanoseconds. Go's range of
  instants is wider than 64 bits of nanoseconds, so the instant is an unbounded integer.
  A \<^verbatim>\<open>time.Duration\<close> and every \<^verbatim>\<open>int64\<close> is an integer kept inside the signed 64-bit
  range by the operations below; \<^verbatim>\<open>uint64\<close> is a 64-bit word.
\<close>

type_synonym Time = int
type_synonym Duration = int
type_synonym int64 = int
type_synonym uint64 = "64 word"

definition minDuration :: Duration where
  "minDuration = - (2 ^ 63)"

definition maxDuration :: Duration where
  "maxDuration = 2 ^ 63 - 1"

definition is_int64 :: "int \<Rightarrow> bool" where
  "is_int64 x = (minDuration \<le> x \<and> x \<le> maxDuration)"

text \<open>
  \<^verbatim>\<open>t.Sub(u)\<close> of Go's package time: the duration t - u, and the largest (smallest)
  duration when the difference does not fit.
\<close>

definition Time_Sub :: "Time \<Rightarrow> Time \<Rightarrow> Duration" where
  "Time_Sub t u =
     (let d = t - u
      in if d < minDuration then minDuration
         else if maxDuration < d then maxDuration
         else d)"

text \<open>
  \<^verbatim>\<open>d.Milliseconds()\<close> is \<^verbatim>\<open>int64(d) / 1e6\<close>; Go's integer division truncates towards zero,
  HOL's \<open>div\<close> rounds down, so the sign is taken out first.
\<close>

definition Duration_Milliseconds :: "Duration \<Rightarrow> int64" where
  "Duration_Milliseconds d =
     (if 0 \<le> d then d div 1000000 else - ((- d) div 1000000))"

text \<open>Addition of two \<^verbatim>\<open>int64\<close> values wraps around in two's complement.\<close>

definition wrap64 :: "int \<Rightarrow> int64" where
  "wrap64 x = (x + 2 ^ 63) mod 2 ^ 64 - 2 ^ 63"

definition add_int64 :: "int64 \<Rightarrow> int64 \<Rightarrow> int64" where
  "add_int64 a b = wrap64 (a + b)"

text \<open>
  \<^verbatim>\<open>float64\<close> is kept abstract: a type variable \<open>'f\<close> and the four operations the peer
  uses on it. \<open>f64_of_int64\<close> is the conversion \<^verbatim>\<open>float64(x)\<close>, \<open>f64_quo\<close> the division,
  \<open>fmt_Sprint\<close> is \<^verbatim>\<open>fmt.Sprint(x)\<close> and \<open>fmt_Sprintf v x\<close> is \<^verbatim>\<open>fmt.Sprintf(v, x)\<close> for a
  verb \<open>v\<close>.
\<close>

record 'f float64_ops =
  f64_of_int64 :: "int64 \<Rightarrow> 'f"
  f64_quo :: "'f \<Rightarrow> 'f \<Rightarrow> 'f"
  fmt_Sprint :: "'f \<Rightarrow> string"
  fmt_Sprintf :: "string \<Rightarrow> 'f \<Rightarrow> string"

text \<open>Decimal rendering, as \<^verbatim>\<open>strconv.FormatUint(x, 10)\<close> and the verb \<^verbatim>\<open>%d\<close> give it.\<close>

definition digit_char :: "nat \<Rightarrow> char" where
  "digit_char d = ''0123456789'' ! (d mod 10)"

fun decimal :: "nat \<Rightarrow> string" where
  "decimal n = (if n < 10 then [digit_char n] else decimal (n div 10) @ [digit_char (n mod 10)])"

declare decimal.simps [simp del]

definition FormatUint :: "uint64 \<Rightarrow> string" where
  "FormatUint x = decimal (unat x)"

definition Sprintf_d :: "int \<Rightarrow> string" where
  "Sprintf_d i = (if i < 0 then CHR ''-'' # decimal (nat (- i)) else decimal (nat i))"

definition FormatBool :: "bool \<Rightarrow> string" where
  "FormatBool b = (if b then ''true'' else ''false'')"

text \<open>\<^verbatim>\<open>errors.New(msg)\<close>: an error value carrying its message.\<close>

datatype error = errors_New string

subsection \<open>Declarations from other files and packages\<close>

text \<open>
  Modelled from the spec: the type \<^verbatim>\<open>MessageMetrics\<close> and its constructor
  \<^verbatim>\<open>NewMessageMetrics\<close> are declared in another file of package metrics. The spec's
  Message Metrics Counter has a count that is a non-negative integer, created zero, and
  \<open>Increment\<close> as its only mutator. peer.go sums the counts as \<^verbatim>\<open>uint64\<close>.
\<close>

record MessageMetrics =
  Count :: uint64

definition NewMessageMetrics :: MessageMetrics where
  "NewMessageMetrics = \<lparr>Count = 0\<rparr>"

definition Increment :: "MessageMetrics \<Rightarrow> MessageMetrics" where
  "Increment m = m\<lparr>Count := Count m + 1\<rparr>"

text \<open>
  The five topic names are constants of the imported package \<^verbatim>\<open>pgossip\<close>; they are taken
  as a parameter.
\<close>

record pgossip =
  topic_BeaconBlock :: string
  topic_BeaconAggregateProof :: string
  topic_VoluntaryExit :: string
  topic_ProposerSlashing :: string
  topic_AttesterSlashing :: string

definition known_topics :: "pgossip \<Rightarrow> string list" where
  "known_topics tp =
     [topic_BeaconBlock tp, topic_BeaconAggregateProof tp, topic_VoluntaryExit tp,
      topic_ProposerSlashing tp, topic_AttesterSlashing tp]"

subsection \<open>The peer\<close>

record 'f Peer =
  PeerId :: string
  NodeId :: string
  UserAgent :: string
  ClientName :: string
  ClientOS :: string
  ClientVersion :: string
  Pubkey :: string
  Addrs :: string
  Ip :: string
  Country :: string
  City :: string
  Latency :: 'f
  ConnectedDirection :: string
  IsConnected :: bool
  Attempted :: bool
  Succeed :: bool
  Attempts :: uint64
  Error :: string
  ConnectionTimes :: "Time list"
  DisconnectionTimes :: "Time list"
  MetadataRequest :: bool
  MetadataSucceed :: bool
  LastExport :: int64
  BeaconBlock :: MessageMetrics
  BeaconAggregateProof :: MessageMetrics
  VoluntaryExit :: MessageMetrics
  ProposerSlashing :: MessageMetrics
  AttesterSlashing :: MessageMetrics

text \<open>
  \<^verbatim>\<open>NewPeer\<close> names most fields; \<^verbatim>\<open>ClientName\<close>, \<^verbatim>\<open>ClientOS\<close> and \<^verbatim>\<open>ClientVersion\<close> are left
  at Go's zero value, the empty string. \<^verbatim>\<open>Latency: 0\<close> is the float64 of 0.
\<close>

definition NewPeer :: "'f float64_ops \<Rightarrow> string \<Rightarrow> 'f Peer" where
  "NewPeer fl peerId =
     \<lparr>PeerId = peerId, NodeId = '''', UserAgent = '''', ClientName = '''', ClientOS = '''',
      ClientVersion = '''', Pubkey = '''', Addrs = '''', Ip = '''', Country = '''', City = '''',
      Latency = f64_of_int64 fl 0,
      ConnectedDirection = '''', IsConnected = False,
      Attempted = False, Succeed = False, Attempts = 0, Error = ''None'',
      ConnectionTimes = [], DisconnectionTimes = [],
      MetadataRequest = False, MetadataSucceed = False, LastExport = 0,
      BeaconBlock = NewMessageMetrics, BeaconAggregateProof = NewMessageMetrics,
      VoluntaryExit = NewMessageMetrics, ProposerSlashing = NewMessageMetrics,
      AttesterSlashing = NewMessageMetrics\<rparr>"

definition ResetDynamicMetrics :: "'f Peer \<Rightarrow> 'f Peer" where
  "ResetDynamicMetrics pm =
     pm\<lparr>Attempts := 0,
        BeaconBlock := NewMessageMetrics,
        BeaconAggregateProof := NewMessageMetrics,
        VoluntaryExit := NewMessageMetrics,
        ProposerSlashing := NewMessageMetrics,
        AttesterSlashing := NewMessageMetrics\<rparr>"

definition GetAllMessagesCount :: "'f Peer \<Rightarrow> uint64" where
  "GetAllMessagesCount pm =
     Count (BeaconBlock pm) + Count (BeaconAggregateProof pm) + Count (VoluntaryExit pm)
       + Count (AttesterSlashing pm) + Count (ProposerSlashing pm)"

definition AddConnectionEvent :: "'f Peer \<Rightarrow> string \<Rightarrow> Time \<Rightarrow> 'f Peer" where
  "AddConnectionEvent pm direction time =
     pm\<lparr>ConnectionTimes := ConnectionTimes pm @ [time],
        IsConnected := True,
        ConnectedDirection := direction\<rparr>"

definition AddDisconnectionEvent :: "'f Peer \<Rightarrow> Time \<Rightarrow> 'f Peer" where
  "AddDisconnectionEvent pm time =
     pm\<lparr>DisconnectionTimes := DisconnectionTimes pm @ [time],
        IsConnected := False,
        ConnectedDirection := ''''\<rparr>"

text \<open>
  \<^verbatim>\<open>utils.FilterError\<close>, the error normalizer, lives in another package and is the
  parameter \<open>FilterError\<close>.
\<close>

definition AddNewConnectionAttempt ::
  "(string \<Rightarrow> string) \<Rightarrow> 'f Peer \<Rightarrow> bool \<Rightarrow> string \<Rightarrow> 'f Peer" where
  "AddNewConnectionAttempt FilterError pm succeed err =
     (let pm1 = pm\<lparr>Attempts := Attempts pm + 1\<rparr>;
          pm2 = (if \<not> Attempted pm1 then pm1\<lparr>Attempted := True\<rparr> else pm1)
      in if succeed then pm2\<lparr>Succeed := succeed, Error := ''None''\<rparr>
         else pm2\<lparr>Error := FilterError err\<rparr>)"

text \<open>
  The two loops of \<^verbatim>\<open>GetConnectedTime\<close>. \<open>scan_disconnections\<close> is the inner loop for one
  connection instant: it returns the running total as the loop leaves it, at the
  \<^verbatim>\<open>break\<close> or at the end of the slice. \<open>scan_connections\<close> is the outer loop.
\<close>

fun scan_disconnections :: "Time \<Rightarrow> Time list \<Rightarrow> int64 \<Rightarrow> int64" where
  "scan_disconnections conTime [] totalConnectedTime = totalConnectedTime"
| "scan_disconnections conTime (discTime # rest) totalConnectedTime =
     (let singleConnectionTime = Duration_Milliseconds (Time_Sub discTime conTime)
      in if singleConnectionTime \<ge> 0
         then add_int64 totalConnectedTime singleConnectionTime
         else scan_disconnections conTime rest totalConnectedTime)"

fun scan_connections :: "Time list \<Rightarrow> Time list \<Rightarrow> int64 \<Rightarrow> int64" where
  "scan_connections [] discTimes totalConnectedTime = totalConnectedTime"
| "scan_connections (conTime # rest) discTimes totalConnectedTime =
     scan_connections rest discTimes (scan_disconnections conTime discTimes totalConnectedTime)"

definition totalConnectedTime :: "'f Peer \<Rightarrow> int64" where
  "totalConnectedTime pm = scan_connections (ConnectionTimes pm) (DisconnectionTimes pm) 0"

definition GetConnectedTime :: "'f float64_ops \<Rightarrow> 'f Peer \<Rightarrow> 'f" where
  "GetConnectedTime fl pm =
     f64_quo fl (f64_of_int64 fl (totalConnectedTime pm)) (f64_of_int64 fl 60000)"

text \<open>
  \<^verbatim>\<open>GetMessageMetrics\<close> returns a pointer to one of the five counters of the peer, or an
  error. The pointer is the name of the field it points to.
\<close>

datatype MessageMetrics_ptr =
  Ref_BeaconBlock | Ref_BeaconAggregateProof | Ref_VoluntaryExit
  | Ref_ProposerSlashing | Ref_AttesterSlashing

fun load :: "'f Peer \<Rightarrow> MessageMetrics_ptr \<Rightarrow> MessageMetrics" where
  "load pm Ref_BeaconBlock = BeaconBlock pm"
| "load pm Ref_BeaconAggregateProof = BeaconAggregateProof pm"
| "load pm Ref_VoluntaryExit = VoluntaryExit pm"
| "load pm Ref_ProposerSlashing = ProposerSlashing pm"
| "load pm Ref_AttesterSlashing = AttesterSlashing pm"

fun store :: "MessageMetrics_ptr \<Rightarrow> MessageMetrics \<Rightarrow> 'f Peer \<Rightarrow> 'f Peer" where
  "store Ref_BeaconBlock m pm = pm\<lparr>BeaconBlock := m\<rparr>"
| "store Ref_BeaconAggregateProof m pm = pm\<lparr>BeaconAggregateProof := m\<rparr>"
| "store Ref_VoluntaryExit m pm = pm\<lparr>VoluntaryExit := m\<rparr>"
| "store Ref_ProposerSlashing m pm = pm\<lparr>ProposerSlashing := m\<rparr>"
| "store Ref_AttesterSlashing m pm = pm\<lparr>AttesterSlashing := m\<rparr>"

definition GetMessageMetrics ::
  "pgossip \<Rightarrow> 'f Peer \<Rightarrow> string \<Rightarrow> error + MessageMetrics_ptr" where
  "GetMessageMetrics tp pm topicName =
     (if topicName = topic_BeaconBlock tp then Inr Ref_BeaconBlock
      else if topicName = topic_BeaconAggregateProof tp then Inr Ref_BeaconAggregateProof
      else if topicName = topic_VoluntaryExit tp then Inr Ref_VoluntaryExit
      else if topicName = topic_ProposerSlashing tp then Inr Ref_ProposerSlashing
      else if topicName = topic_AttesterSlashing tp then Inr Ref_AttesterSlashing
      else Inl (errors_New (''unknown topic name: '' @ topicName)))"

text \<open>
  Modelled from the spec: \<open>CountMessage\<close>, the caller of \<^verbatim>\<open>GetMessageMetrics\<close> that is not
  part of peer.go. It resolves the topic name to one of the five counters and
  increments it, and fails with the error of the lookup for any other name. The peer after
  the call is returned next to the error.
\<close>

definition CountMessage :: "pgossip \<Rightarrow> 'f Peer \<Rightarrow> string \<Rightarrow> 'f Peer \<times> error option" where
  "CountMessage tp pm topicName =
     (case GetMessageMetrics tp pm topicName of
        Inl err \<Rightarrow> (pm, Some err)
      | Inr ptr \<Rightarrow> (store ptr (Increment (load pm ptr)) pm, None))"

definition ToCsvLine :: "'f float64_ops \<Rightarrow> 'f Peer \<Rightarrow> string" where
  "ToCsvLine fl pm =
     PeerId pm @ '','' @
     NodeId pm @ '','' @
     UserAgent pm @ '','' @
     ClientName pm @ '','' @
     ClientVersion pm @ '','' @
     Pubkey pm @ '','' @
     Addrs pm @ '','' @
     Ip pm @ '','' @
     Country pm @ '','' @
     City pm @ '','' @
     FormatBool (MetadataRequest pm) @ '','' @
     FormatBool (MetadataSucceed pm) @ '','' @
     FormatBool (Attempted pm) @ '','' @
     FormatBool (Succeed pm) @ '','' @
     FormatBool (IsConnected pm) @ '','' @
     FormatUint (Attempts pm) @ '','' @
     Error pm @ '','' @
     fmt_Sprint fl (Latency pm) @ '','' @
     Sprintf_d (int (length (ConnectionTimes pm))) @ '','' @
     Sprintf_d (int (length (DisconnectionTimes pm))) @ '','' @
     fmt_Sprintf fl ''%.3f'' (GetConnectedTime fl pm) @ '','' @
     FormatUint (Count (BeaconBlock pm)) @ '','' @
     FormatUint (Count (BeaconAggregateProof pm)) @ '','' @
     FormatUint (Count (VoluntaryExit pm)) @ '','' @
     FormatUint (Count (ProposerSlashing pm)) @ '','' @
     FormatUint (Count (AttesterSlashing pm)) @ '','' @
     FormatUint (GetAllMessagesCount pm) @ [CHR 0x0A]"

subsection \<open>Runs of operations\<close>

text \<open>The methods that change a peer, and a run of them in the order given.\<close>

datatype peer_op =
  Op_AddConnectionEvent string Time
  | Op_AddDisconnectionEvent Time
  | Op_AddNewConnectionAttempt bool string
  | Op_ResetDynamicMetrics
  | Op_CountMessage string

fun apply_op :: "(string \<Rightarrow> string) \<Rightarrow> pgossip \<Rightarrow> 'f Peer \<Rightarrow> peer_op \<Rightarrow> 'f Peer" where
  "apply_op FilterError tp pm (Op_AddConnectionEvent direction t) = AddConnectionEvent pm direction t"
| "apply_op FilterError tp pm (Op_AddDisconnectionEvent t) = AddDisconnectionEvent pm t"
| "apply_op FilterError tp pm (Op_AddNewConnectionAttempt succeed err) =
     AddNewConnectionAttempt FilterError pm succeed err"
| "apply_op FilterError tp pm Op_ResetDynamicMetrics = ResetDynamicMetrics pm"
| "apply_op FilterError tp pm (Op_CountMessage topicName) = fst (CountMessage tp pm topicName)"

definition run_ops :: "(string \<Rightarrow> string) \<Rightarrow> pgossip \<Rightarrow> 'f Peer \<Rightarrow> peer_op list \<Rightarrow> 'f Peer" where
  "run_ops FilterError tp pm ops = foldl (apply_op FilterError tp) pm ops"

definition record_attempts ::
  "(string \<Rightarrow> string) \<Rightarrow> 'f Peer \<Rightarrow> (bool \<times> string) list \<Rightarrow> 'f Peer" where
  "record_attempts FilterError pm calls =
     foldl (\<lambda>p (succeed, err). AddNewConnectionAttempt FilterError p succeed err) pm calls"

subsection \<open>The connected duration as the spec words it\<close>

text \<open>
  The pairing in the words of the spec: for a connection instant \<open>c\<close> the first
  disconnection instant \<open>d\<close>, in recorded order, with \<open>d - c\<close> non-negative; it
  contributes \<open>d - c\<close> (here in nanoseconds, the unit of the instants).
\<close>

definition spec_first_match :: "Time \<Rightarrow> Time list \<Rightarrow> Time option" where
  "spec_first_match c ds = find (\<lambda>d. 0 \<le> d - c) ds"

definition spec_ConnectedDuration :: "Time list \<Rightarrow> Time list \<Rightarrow> int" where
  "spec_ConnectedDuration cs ds =
     sum_list (map (\<lambda>c. case spec_first_match c ds of None \<Rightarrow> 0 | Some d \<Rightarrow> d - c) cs)"

text \<open>
  The same pairing with the test made on the whole milliseconds of the saturated
  difference, and the milliseconds contributed.
\<close>

definition first_match_ms :: "Time \<Rightarrow> Time list \<Rightarrow> Time option" where
  "first_match_ms c ds = find (\<lambda>d. 0 \<le> Duration_Milliseconds (Time_Sub d c)) ds"

definition contribution_ms :: "Time \<Rightarrow> Time list \<Rightarrow> int64" where
  "contribution_ms c ds =
     (case first_match_ms c ds of
        None \<Rightarrow> 0
      | Some d \<Rightarrow> Duration_Milliseconds (Time_Sub d c))"

text \<open>
  The contribution of a connection instant in plain arithmetic on the instants: the
  interval to the matched disconnection, cut to whole milliseconds towards zero.
\<close>

definition spec_contribution_ms :: "Time \<Rightarrow> Time list \<Rightarrow> int" where
  "spec_contribution_ms c ds =
     (case find (\<lambda>d. - 1000000 < d - c) ds of
        None \<Rightarrow> 0
      | Some d \<Rightarrow> sgn (d - c) * (\<bar>d - c\<bar> div 1000000))"

subsection \<open>Reading a line of the export\<close>

text \<open>
  \<open>join\<close> is \<^verbatim>\<open>strings.Join\<close>, \<open>split_on\<close> is \<^verbatim>\<open>strings.Split\<close> at a one-character
  separator: one field more than there are separators. \<open>commas\<close> counts the commas of a
  string.
\<close>

fun join :: "string \<Rightarrow> string list \<Rightarrow> string" where
  "join sep [] = []"
| "join sep [x] = x"
| "join sep (x # y # ys) = x @ sep @ join sep (y # ys)"

fun split_on :: "char \<Rightarrow> string \<Rightarrow> string list" where
  "split_on c [] = [[]]"
| "split_on c (x # xs) =
     (if x = c then [] # split_on c xs
      else (case split_on c xs of [] \<Rightarrow> [[x]] | f # fs \<Rightarrow> (x # f) # fs))"

definition commas :: "string \<Rightarrow> nat" where
  "commas s = length (filter (\<lambda>x. x = CHR '','') s)"

definition count_char :: "char \<Rightarrow> string \<Rightarrow> nat" where
  "count_char c s = length (filter (\<lambda>x. x = c) s)"

definition string_fields :: "'f Peer \<Rightarrow> string list" where
  "string_fields pm =
     [PeerId pm, NodeId pm, UserAgent pm, ClientName pm, ClientVersion pm, Pubkey pm,
      Addrs pm, Ip pm, Country pm, City pm, Error pm]"

text \<open>The columns of the export line as the spec lists them.\<close>

definition csv_fields :: "'f float64_ops \<Rightarrow> 'f Peer \<Rightarrow> string list" where
  "csv_fields fl pm =
     [PeerId pm, NodeId pm, UserAgent pm, ClientName pm, ClientVersion pm, Pubkey pm,
      Addrs pm, Ip pm, Country pm, City pm,
      FormatBool (MetadataRequest pm), FormatBool (MetadataSucceed pm),
      FormatBool (Attempted pm), FormatBool (Succeed pm), FormatBool (IsConnected pm),
      FormatUint (Attempts pm), Error pm, fmt_Sprint fl (Latency pm),
      Sprintf_d (int (length (ConnectionTimes pm))),
      Sprintf_d (int (length (DisconnectionTimes pm))),
      fmt_Sprintf fl ''%.3f'' (GetConnectedTime fl pm),
      FormatUint (Count (BeaconBlock pm)), FormatUint (Count (BeaconAggregateProof pm)),
      FormatUint (Count (VoluntaryExit pm)), FormatUint (Count (ProposerSlashing pm)),
      FormatUint (Count (AttesterSlashing pm)), FormatUint (GetAllMessagesCount pm)]"

text \<open>
  An export is read line by line: \<open>csv_records\<close> gives, for every newline-terminated
  line of a text, the fields between its commas.
\<close>

definition csv_records :: "string \<Rightarrow> string list list" where
  "csv_records out = map (split_on CHR '','') (butlast (split_on (CHR 0x0A) out))"

subsection \<open>Concrete parameters for examples\<close>

text \<open>
  An instance of the float64 operations on whole numbers: the conversion is the identity,
  the quotient is the integer quotient, \<^verbatim>\<open>fmt.Sprint\<close> prints the digits and the verb
  \<^verbatim>\<open>%.3f\<close> prints them with three zero decimals. It agrees with Go where every value is a
  whole number below \<open>2 ^ 53\<close> and every quotient is exact, as for a peer with latency 0
  and no recorded connection.
\<close>

definition whole_f64 :: "int float64_ops" where
  "whole_f64 =
     \<lparr>f64_of_int64 = (\<lambda>i. i),
      f64_quo = (\<lambda>a b. a div b),
      fmt_Sprint = Sprintf_d,
      fmt_Sprintf = (\<lambda>verb x. Sprintf_d x @ ''.000'')\<rparr>"

text \<open>
  Modelled from the spec: the five topic identifiers, which the imported package
  \<^verbatim>\<open>pgossip\<close> defines, under the names the spec gives them.
\<close>

definition spec_topics :: pgossip where
  "spec_topics =
     \<lparr>topic_BeaconBlock = ''BeaconBlock'',
      topic_BeaconAggregateProof = ''BeaconAggregateProof'',
      topic_VoluntaryExit = ''VoluntaryExit'',
      topic_ProposerSlashing = ''ProposerSlashing'',
      topic_AttesterSlashing = ''AttesterSlashing''\<rparr>"

text \<open>A peer with its identity filled in, latency 0 and no recorded connection.\<close>

definition example_peer :: "int Peer" where
  "example_peer =
     (NewPeer whole_f64 ''16Uiu2HAm'')
       \<lparr>NodeId := ''a1b2c3'', UserAgent := ''Lighthouse/v1.0.0'', ClientName := ''Lighthouse'',
        ClientVersion := ''v1.0.0'', Pubkey := ''04ab'', Addrs := ''/ip4/10.0.0.1/tcp/9000'',
        Ip := ''10.0.0.1'', Country := ''ES'', City := ''Barcelona''\<rparr>"

section \<open>Properties\<close>

subsection \<open>64-bit arithmetic and durations\<close>

lemma wrap64_id: "is_int64 x \<Longrightarrow> wrap64 x = x"
  by (simp add: is_int64_def wrap64_def minDuration_def maxDuration_def)

lemma is_int64_wrap64: "is_int64 (wrap64 x)"
  by (simp add: is_int64_def wrap64_def minDuration_def maxDuration_def)

lemma wrap64_add_left: "wrap64 (wrap64 a + b) = wrap64 (a + b)"
proof -
  have "(wrap64 a + b + 2 ^ 63) mod 2 ^ 64 = ((a + 2 ^ 63) mod 2 ^ 64 + b) mod (2 ^ 64 :: int)"
    by (simp add: wrap64_def)
  also have "\<dots> = (a + 2 ^ 63 + b) mod 2 ^ 64"
    by (rule mod_add_left_eq)
  also have "a + 2 ^ 63 + b = a + b + (2 ^ 63 :: int)"
    by simp
  finally show ?thesis
    unfolding wrap64_def by simp
qed

lemma Milliseconds_nonneg_iff: "0 \<le> Duration_Milliseconds d \<longleftrightarrow> - 1000000 < d"
  by (auto simp: Duration_Milliseconds_def)

lemma Milliseconds_Sub_nonneg_iff:
  "0 \<le> Duration_Milliseconds (Time_Sub d c) \<longleftrightarrow> - 1000000 < d - c"
  by (auto simp: Milliseconds_nonneg_iff Time_Sub_def Let_def minDuration_def maxDuration_def)

lemma Milliseconds_small: "\<bar>d\<bar> < 1000000 \<Longrightarrow> Duration_Milliseconds d = 0"
  by (auto simp: Duration_Milliseconds_def)

lemma Time_Sub_small: "\<bar>d - c\<bar> < 1000000 \<Longrightarrow> Time_Sub d c = d - c"
  by (auto simp: Time_Sub_def Let_def minDuration_def maxDuration_def)

subsection \<open>The loops of GetConnectedTime\<close>

lemma scan_disconnections_eq:
  "scan_disconnections c ds tot =
     (case first_match_ms c ds of
        None \<Rightarrow> tot
      | Some d \<Rightarrow> add_int64 tot (Duration_Milliseconds (Time_Sub d c)))"
  by (induction ds) (simp_all add: first_match_ms_def Let_def)

lemma scan_disconnections_total:
  "is_int64 tot \<Longrightarrow> scan_disconnections c ds tot = wrap64 (tot + contribution_ms c ds)"
  by (simp add: scan_disconnections_eq contribution_ms_def add_int64_def wrap64_id
      split: option.split)

lemma scan_connections_total:
  "is_int64 tot \<Longrightarrow>
   scan_connections cs ds tot = wrap64 (tot + sum_list (map (\<lambda>c. contribution_ms c ds) cs))"
proof (induction cs arbitrary: tot)
  case Nil
  then show ?case by (simp add: wrap64_id)
next
  case (Cons c cs)
  have "is_int64 (scan_disconnections c ds tot)"
    using Cons.prems by (simp add: scan_disconnections_total is_int64_wrap64)
  then show ?case
    using Cons.prems Cons.IH by (simp add: scan_disconnections_total wrap64_add_left add.assoc)
qed

lemma totalConnectedTime_sum:
  "totalConnectedTime pm =
     wrap64 (sum_list (map (\<lambda>c. contribution_ms c (DisconnectionTimes pm)) (ConnectionTimes pm)))"
  by (simp add: totalConnectedTime_def scan_connections_total is_int64_def minDuration_def
      maxDuration_def)


lemma find_cong_on: "\<forall>x \<in> set xs. P x = Q x \<Longrightarrow> find P xs = find Q xs"
  by (induction xs) simp_all

lemma whole_ms_nonneg_iff:
  assumes "(1000000::int) dvd c" and "1000000 dvd d"
  shows "- 1000000 < d - c \<longleftrightarrow> 0 \<le> d - c"
proof -
  have "1000000 dvd d - c"
    using assms(2) assms(1) by (rule dvd_diff)
  then obtain k where k: "d - c = 1000000 * k"
    by (auto simp: dvd_def)
  show ?thesis unfolding k by auto
qed

lemma first_match_whole_ms:
  assumes "(1000000::int) dvd c" and "\<forall>d \<in> set ds. 1000000 dvd d"
  shows "first_match_ms c ds = spec_first_match c ds"
  unfolding first_match_ms_def spec_first_match_def
  by (rule find_cong_on) (simp add: Milliseconds_Sub_nonneg_iff whole_ms_nonneg_iff assms)

subsection \<open>Connected duration: the pairing\<close>

text \<open>
  C1, as the spec states it, fails on the code. The history below is recorded by four
  events: connection at 0, disconnection at 0.5 ms, connection at 1 ms, disconnection at
  60001 ms. For the connection at 1 ms the loop stops at the disconnection at 0.5 ms,
  whose difference of -0.5 ms has 0 whole milliseconds, and the total is 0. In the words
  of the spec the first disconnection with a non-negative difference is the one at
  60001 ms, and the pairing yields 0.5 ms + 60000 ms.
\<close>

theorem connected_time_first_match_counterexample:
  "totalConnectedTime
     (run_ops (\<lambda>e. e) spec_topics (NewPeer whole_f64 ''p'')
        [Op_AddConnectionEvent ''inbound'' 0, Op_AddDisconnectionEvent 500000,
         Op_AddConnectionEvent ''inbound'' 1000000, Op_AddDisconnectionEvent 60001000000]) = 0
   \<and> spec_ConnectedDuration [0, 1000000] [500000, 60001000000] = 60000500000
   \<and> spec_first_match 1000000 [500000, 60001000000] = Some 60001000000
   \<and> first_match_ms 1000000 [500000, 60001000000] = Some 500000"
  by (simp add: run_ops_def AddConnectionEvent_def AddDisconnectionEvent_def NewPeer_def
      totalConnectedTime_def Time_Sub_def Duration_Milliseconds_def add_int64_def wrap64_def
      minDuration_def maxDuration_def spec_ConnectedDuration_def spec_first_match_def
      first_match_ms_def)

text \<open>
  C1, amended. For every peer the running total of \<^verbatim>\<open>GetConnectedTime\<close> is the 64-bit sum,
  over the connection instants in recorded order, of the contribution of the first
  disconnection instant, in recorded order, whose difference to the connection instant has
  a non-negative number of whole milliseconds; that is the first \<open>d\<close> with
  \<open>d - c > -1 ms\<close>, and it contributes those whole milliseconds. Every connection
  instant scans the whole list of disconnections again, so one disconnection can serve
  several connections. The result is the total divided by 60000 as a float64. Where all
  instants are whole milliseconds the match is the one the spec words. For the
  connection instants 0 and 10 ms and the disconnection instants 5 and 8 ms the first
  connection contributes 5 ms, the second nothing, and the total is 5 ms.
\<close>

theorem connected_time_first_match_ms:
  "totalConnectedTime pm =
     wrap64 (sum_list (map (\<lambda>c. contribution_ms c (DisconnectionTimes pm)) (ConnectionTimes pm)))
   \<and> contribution_ms c ds =
       (case find (\<lambda>d. - 1000000 < d - c) ds of
          None \<Rightarrow> 0
        | Some d \<Rightarrow> Duration_Milliseconds (Time_Sub d c))
   \<and> GetConnectedTime fl pm =
       f64_quo fl (f64_of_int64 fl (totalConnectedTime pm)) (f64_of_int64 fl 60000)
   \<and> (1000000 dvd c \<and> list_all (\<lambda>d. 1000000 dvd d) ds \<longrightarrow>
        first_match_ms c ds = spec_first_match c ds)
   \<and> contribution_ms 0 [5000000, 8000000] = 5
   \<and> contribution_ms 10000000 [5000000, 8000000] = 0
   \<and> totalConnectedTime
        (pm\<lparr>ConnectionTimes := [0, 10000000], DisconnectionTimes := [5000000, 8000000]\<rparr>) = 5"
proof -
  have w: "1000000 dvd c \<and> list_all (\<lambda>d. 1000000 dvd d) ds \<longrightarrow>
        first_match_ms c ds = spec_first_match c ds"
    by (simp add: first_match_whole_ms list_all_iff)
  have ex: "contribution_ms 0 [5000000, 8000000] = 5"
    "contribution_ms 10000000 [5000000, 8000000] = 0"
    by (simp_all add: contribution_ms_def first_match_ms_def Time_Sub_def
        Duration_Milliseconds_def minDuration_def maxDuration_def)
  have "totalConnectedTime
        (pm\<lparr>ConnectionTimes := [0, 10000000], DisconnectionTimes := [5000000, 8000000]\<rparr>) = 5"
    by (simp add: totalConnectedTime_sum ex wrap64_def)
  moreover have "contribution_ms c ds =
       (case find (\<lambda>d. - 1000000 < d - c) ds of
          None \<Rightarrow> 0
        | Some d \<Rightarrow> Duration_Milliseconds (Time_Sub d c))"
    by (simp add: contribution_ms_def first_match_ms_def Milliseconds_Sub_nonneg_iff)
  ultimately show ?thesis
    using ex w by (simp add: totalConnectedTime_sum GetConnectedTime_def)
qed

theorem connected_time_first_match_ms_witness:
  "1000000 dvd (0::int) \<and> list_all (\<lambda>d. 1000000 dvd d) [5000000, 8000000 :: int]
   \<and> first_match_ms 0 [5000000, 8000000] = Some 5000000
   \<and> spec_first_match 0 [5000000, 8000000] = Some 5000000
   \<and> totalConnectedTime
        (example_peer\<lparr>ConnectionTimes := [0, 10000000],
           DisconnectionTimes := [5000000, 8000000]\<rparr>) = 5"
proof -
  have s: "spec_first_match 0 [5000000, 8000000] = Some 5000000"
    by (simp add: spec_first_match_def)
  show ?thesis
    using s connected_time_first_match_ms [of example_peer 0 "[5000000, 8000000]" whole_f64]
    by simp
qed


subsection \<open>The export line\<close>

lemma digit_char_in: "digit_char d \<in> set ''0123456789''"
  unfolding digit_char_def by (rule nth_mem) simp

lemma digit_char_not_comma: "digit_char d \<noteq> CHR '',''"
  using digit_char_in [of d] by auto

lemma comma_notin_decimal: "CHR '','' \<notin> set (decimal n)"
proof (induction n rule: decimal.induct)
  case (1 n)
  show ?case
  proof (cases "n < 10")
    case True
    then show ?thesis
      using digit_char_not_comma [of n] by (subst decimal.simps) auto
  next
    case False
    then show ?thesis
      using 1 digit_char_not_comma [of "n mod 10"] by (subst decimal.simps) auto
  qed
qed

lemma decimal_0: "decimal 0 = ''0''"
  by (subst decimal.simps) (simp add: digit_char_def)

lemma comma_notin_FormatUint: "CHR '','' \<notin> set (FormatUint x)"
  by (simp add: FormatUint_def comma_notin_decimal)

lemma comma_notin_Sprintf_d: "CHR '','' \<notin> set (Sprintf_d i)"
  by (simp add: Sprintf_d_def comma_notin_decimal)

lemma comma_notin_FormatBool: "CHR '','' \<notin> set (FormatBool b)"
  by (simp add: FormatBool_def)

lemma commas_append: "commas (a @ b) = commas a + commas b"
  by (simp add: commas_def)

lemma commas_zero_iff: "commas s = 0 \<longleftrightarrow> CHR '','' \<notin> set s"
  by (auto simp: commas_def filter_empty_conv)

lemma split_on_nonempty: "split_on c s \<noteq> []"
  by (induction s) (auto split: list.splits)

lemma length_split_on: "length (split_on CHR '','' s) = commas s + 1"
proof (induction s)
  case Nil
  then show ?case by (simp add: commas_def)
next
  case (Cons x xs)
  then show ?case
    using split_on_nonempty [of "CHR '',''" xs]
    by (cases "split_on CHR '','' xs") (auto simp: commas_def)
qed

lemma split_on_free: "c \<notin> set a \<Longrightarrow> split_on c a = [a]"
  by (induction a) auto

lemma split_on_append: "c \<notin> set a \<Longrightarrow> split_on c (a @ c # b) = a # split_on c b"
  by (induction a) auto

lemma split_on_join:
  "fs \<noteq> [] \<Longrightarrow> \<forall>f \<in> set fs. c \<notin> set f \<Longrightarrow> split_on c (join [c] fs) = fs"
proof (induction "[c]" fs rule: join.induct)
  case 1
  then show ?case by simp
next
  case (2 x)
  then show ?case by (simp add: split_on_free)
next
  case (3 x y ys)
  then show ?case by (simp add: split_on_append)
qed

lemma commas_join:
  "fs \<noteq> [] \<Longrightarrow> commas (join '','' fs) = sum_list (map commas fs) + (length fs - 1)"
proof (induction "'',''" fs rule: join.induct)
  case 1
  then show ?case by simp
next
  case (2 x)
  then show ?case by simp
next
  case (3 x y ys)
  then show ?case by (simp add: commas_append) (simp add: commas_def)
qed

lemma ToCsvLine_join: "ToCsvLine fl pm = join '','' (csv_fields fl pm) @ [CHR 0x0A]"
  by (simp add: ToCsvLine_def csv_fields_def)

lemma sum_commas_csv_fields:
  assumes "CHR '','' \<notin> set (fmt_Sprint fl (Latency pm))"
    and "CHR '','' \<notin> set (fmt_Sprintf fl ''%.3f'' (GetConnectedTime fl pm))"
  shows "sum_list (map commas (csv_fields fl pm)) = sum_list (map commas (string_fields pm))"
proof -
  have z: "\<And>x. commas (FormatUint x) = 0" "\<And>i. commas (Sprintf_d i) = 0"
    "\<And>b. commas (FormatBool b) = 0"
    by (simp_all add: commas_zero_iff comma_notin_FormatUint comma_notin_Sprintf_d
        comma_notin_FormatBool)
  have f: "commas (fmt_Sprint fl (Latency pm)) = 0"
    "commas (fmt_Sprintf fl ''%.3f'' (GetConnectedTime fl pm)) = 0"
    using assms by (simp_all add: commas_zero_iff)
  show ?thesis
    by (simp add: csv_fields_def string_fields_def z f)
qed

lemma fields_of_line:
  assumes "CHR '','' \<notin> set (fmt_Sprint fl (Latency pm))"
    and "CHR '','' \<notin> set (fmt_Sprintf fl ''%.3f'' (GetConnectedTime fl pm))"
  shows "length (split_on CHR '','' (ToCsvLine fl pm)) =
           27 + sum_list (map commas (string_fields pm))"
proof -
  have "commas (ToCsvLine fl pm) = commas (join '','' (csv_fields fl pm))"
    by (simp add: ToCsvLine_join commas_append) (simp add: commas_def)
  also have "\<dots> = sum_list (map commas (csv_fields fl pm)) + 26"
    by (subst commas_join) (simp_all add: csv_fields_def)
  finally show ?thesis
    using assms by (simp add: length_split_on sum_commas_csv_fields)
qed

lemma csv_fields_comma_free:
  assumes "\<forall>s \<in> set (string_fields pm). CHR '','' \<notin> set s"
    and "CHR '','' \<notin> set (fmt_Sprint fl (Latency pm))"
    and "CHR '','' \<notin> set (fmt_Sprintf fl ''%.3f'' (GetConnectedTime fl pm))"
  shows "\<forall>f \<in> set (csv_fields fl pm). CHR '','' \<notin> set f"
  using assms
  by (simp add: csv_fields_def string_fields_def comma_notin_FormatUint comma_notin_Sprintf_d
      comma_notin_FormatBool)

lemma whole_f64_renderings:
  "CHR '','' \<notin> set (fmt_Sprint whole_f64 x)"
  "CHR '','' \<notin> set (fmt_Sprintf whole_f64 verb x)"
  by (simp_all add: whole_f64_def comma_notin_Sprintf_d)

text \<open>
  C2, as the spec states it, fails on the code: a peer whose user agent holds one comma is
  exported as a line of 28 comma-separated fields.
\<close>

theorem csv_line_27_fields_counterexample:
  "length (split_on CHR '',''
     (ToCsvLine whole_f64 (example_peer\<lparr>UserAgent := ''agent/1.0 (linux, amd64)''\<rparr>))) = 28"
  by (simp add: fields_of_line whole_f64_renderings string_fields_def commas_def
      example_peer_def NewPeer_def)

text \<open>
  C2, amended. For every peer whose eleven string fields hold no comma (and with float
  renderings free of commas, as those of Go's \<^verbatim>\<open>fmt\<close> are), \<^verbatim>\<open>ToCsvLine\<close> ends in a newline
  and the text before it splits at the commas into exactly 27 fields, in the documented
  order: the ten identity strings, the five booleans printed as \<open>true\<close> or \<open>false\<close>,
  Attempts, Error, Latency, the two history lengths, the connected duration under the verb
  \<^verbatim>\<open>%.3f\<close>, the five topic counters and the count of all messages.
\<close>

theorem csv_line_27_fields:
  assumes "\<forall>s \<in> set (string_fields pm). CHR '','' \<notin> set s"
    and "CHR '','' \<notin> set (fmt_Sprint fl (Latency pm))"
    and "CHR '','' \<notin> set (fmt_Sprintf fl ''%.3f'' (GetConnectedTime fl pm))"
  shows "last (ToCsvLine fl pm) = CHR 0x0A
    \<and> split_on CHR '','' (butlast (ToCsvLine fl pm)) =
       [PeerId pm, NodeId pm, UserAgent pm, ClientName pm, ClientVersion pm, Pubkey pm,
        Addrs pm, Ip pm, Country pm, City pm,
        FormatBool (MetadataRequest pm), FormatBool (MetadataSucceed pm),
        FormatBool (Attempted pm), FormatBool (Succeed pm), FormatBool (IsConnected pm),
        FormatUint (Attempts pm), Error pm, fmt_Sprint fl (Latency pm),
        Sprintf_d (int (length (ConnectionTimes pm))),
        Sprintf_d (int (length (DisconnectionTimes pm))),
        fmt_Sprintf fl ''%.3f'' (GetConnectedTime fl pm),
        FormatUint (Count (BeaconBlock pm)), FormatUint (Count (BeaconAggregateProof pm)),
        FormatUint (Count (VoluntaryExit pm)), FormatUint (Count (ProposerSlashing pm)),
        FormatUint (Count (AttesterSlashing pm)), FormatUint (GetAllMessagesCount pm)]
    \<and> length (split_on CHR '','' (butlast (ToCsvLine fl pm))) = 27
    \<and> FormatBool True = ''true'' \<and> FormatBool False = ''false''"
proof -
  have "split_on CHR '','' (join '','' (csv_fields fl pm)) = csv_fields fl pm"
    using csv_fields_comma_free [OF assms] by (intro split_on_join) (simp_all add: csv_fields_def)
  then show ?thesis
    by (simp add: ToCsvLine_join) (simp add: csv_fields_def FormatBool_def)
qed

theorem csv_line_27_fields_witness:
  "list_all (\<lambda>s. CHR '','' \<notin> set s) (string_fields example_peer)
   \<and> CHR '','' \<notin> set (fmt_Sprint whole_f64 (Latency example_peer))
   \<and> CHR '','' \<notin> set (fmt_Sprintf whole_f64 ''%.3f'' (GetConnectedTime whole_f64 example_peer))
   \<and> last (ToCsvLine whole_f64 example_peer) = CHR 0x0A
   \<and> length (split_on CHR '','' (butlast (ToCsvLine whole_f64 example_peer))) = 27
   \<and> split_on CHR '','' (butlast (ToCsvLine whole_f64 example_peer)) ! 2 = ''Lighthouse/v1.0.0''
   \<and> split_on CHR '','' (butlast (ToCsvLine whole_f64 example_peer)) ! 12 = ''false''
   \<and> split_on CHR '','' (butlast (ToCsvLine whole_f64 example_peer)) ! 16 = ''None''
   \<and> split_on CHR '','' (butlast (ToCsvLine whole_f64 example_peer)) ! 20 = ''0.000''"
proof -
  have h: "\<forall>s \<in> set (string_fields example_peer). CHR '','' \<notin> set s"
    by (simp add: string_fields_def example_peer_def NewPeer_def)
  have v: "GetConnectedTime whole_f64 example_peer = 0"
    by (simp add: GetConnectedTime_def totalConnectedTime_def example_peer_def NewPeer_def
        whole_f64_def)
  show ?thesis
    using h csv_line_27_fields [OF h whole_f64_renderings(1) whole_f64_renderings(2)]
    by (simp add: whole_f64_renderings v list_all_iff)
      (simp add: example_peer_def NewPeer_def whole_f64_def FormatBool_def Sprintf_d_def decimal_0)
qed

lemma decimal_digits: "set (decimal n) \<subseteq> set ''0123456789''"
proof (induction n rule: decimal.induct)
  case (1 n)
  show ?case
  proof (cases "n < 10")
    case True
    then show ?thesis
      using digit_char_in [of n] by (subst decimal.simps) simp
  next
    case False
    then show ?thesis
      using 1 digit_char_in [of "n mod 10"] by (subst decimal.simps) simp
  qed
qed

lemma newline_notin_decimal: "CHR 0x0A \<notin> set (decimal n)"
  using decimal_digits [of n] by auto

lemma newline_notin_FormatUint: "CHR 0x0A \<notin> set (FormatUint x)"
  by (simp add: FormatUint_def newline_notin_decimal)

lemma newline_notin_Sprintf_d: "CHR 0x0A \<notin> set (Sprintf_d i)"
  by (simp add: Sprintf_d_def newline_notin_decimal)

lemma newline_notin_FormatBool: "CHR 0x0A \<notin> set (FormatBool b)"
  by (simp add: FormatBool_def)

lemma whole_f64_no_newline:
  "CHR 0x0A \<notin> set (fmt_Sprint whole_f64 x)"
  "CHR 0x0A \<notin> set (fmt_Sprintf whole_f64 verb x)"
  by (simp_all add: whole_f64_def newline_notin_Sprintf_d)

lemma commas_count_char: "commas s = count_char CHR '','' s"
  by (simp add: commas_def count_char_def)

lemma count_char_append: "count_char c (a @ b) = count_char c a + count_char c b"
  by (simp add: count_char_def)

lemma count_char_zero_iff: "count_char c s = 0 \<longleftrightarrow> c \<notin> set s"
  by (auto simp: count_char_def filter_empty_conv)

lemma sum_count_char_zero_iff:
  "sum_list (map (count_char c) xs) = 0 \<longleftrightarrow> (\<forall>s \<in> set xs. c \<notin> set s)"
  by (induction xs) (simp_all add: count_char_zero_iff)

lemma length_split_on_count: "length (split_on c s) = count_char c s + 1"
proof (induction s)
  case Nil
  then show ?case by (simp add: count_char_def)
next
  case (Cons x xs)
  then show ?case
    using split_on_nonempty [of c xs]
    by (cases "split_on c xs") (auto simp: count_char_def)
qed

lemma newlines_join:
  "count_char (CHR 0x0A) (join '','' fs) = sum_list (map (count_char (CHR 0x0A)) fs)"
proof (induction "'',''" fs rule: join.induct)
  case 1
  then show ?case by (simp add: count_char_def)
next
  case (2 x)
  then show ?case by simp
next
  case (3 x y ys)
  then show ?case by (simp add: count_char_append) (simp add: count_char_def)
qed

lemma sum_newlines_csv_fields:
  assumes "CHR 0x0A \<notin> set (fmt_Sprint fl (Latency pm))"
    and "CHR 0x0A \<notin> set (fmt_Sprintf fl ''%.3f'' (GetConnectedTime fl pm))"
  shows "sum_list (map (count_char (CHR 0x0A)) (csv_fields fl pm)) =
           sum_list (map (count_char (CHR 0x0A)) (string_fields pm))"
proof -
  have z: "\<And>x. count_char (CHR 0x0A) (FormatUint x) = 0"
    "\<And>i. count_char (CHR 0x0A) (Sprintf_d i) = 0"
    "\<And>b. count_char (CHR 0x0A) (FormatBool b) = 0"
    by (simp_all add: count_char_zero_iff newline_notin_FormatUint newline_notin_Sprintf_d
        newline_notin_FormatBool)
  have f: "count_char (CHR 0x0A) (fmt_Sprint fl (Latency pm)) = 0"
    "count_char (CHR 0x0A) (fmt_Sprintf fl ''%.3f'' (GetConnectedTime fl pm)) = 0"
    using assms by (simp_all add: count_char_zero_iff)
  show ?thesis
    by (simp add: csv_fields_def string_fields_def z f)
qed

lemma split_on_terminated: "c \<notin> set row \<Longrightarrow> split_on c (row @ [c]) = [row, []]"
  by (simp add: split_on_append)

lemma csv_records_line:
  assumes "CHR 0x0A \<notin> set (fmt_Sprint fl (Latency pm))"
    and "CHR 0x0A \<notin> set (fmt_Sprintf fl ''%.3f'' (GetConnectedTime fl pm))"
    and "\<forall>s \<in> set (string_fields pm). CHR 0x0A \<notin> set s"
  shows "csv_records (ToCsvLine fl pm) = [split_on CHR '','' (join '','' (csv_fields fl pm))]"
proof -
  have "sum_list (map (count_char (CHR 0x0A)) (string_fields pm)) = 0"
    using assms(3) by (rule sum_count_char_zero_iff [THEN iffD2])
  then have "count_char (CHR 0x0A) (join '','' (csv_fields fl pm)) = 0"
    by (simp only: newlines_join sum_newlines_csv_fields [OF assms(1,2)])
  then have "CHR 0x0A \<notin> set (join '','' (csv_fields fl pm))"
    by (simp add: count_char_zero_iff)
  then show ?thesis
    by (simp add: csv_records_def ToCsvLine_join split_on_terminated)
qed

lemma length_csv_records:
  assumes "CHR 0x0A \<notin> set (fmt_Sprint fl (Latency pm))"
    and "CHR 0x0A \<notin> set (fmt_Sprintf fl ''%.3f'' (GetConnectedTime fl pm))"
  shows "length (csv_records (ToCsvLine fl pm)) =
           1 + sum_list (map (count_char (CHR 0x0A)) (string_fields pm))"
proof -
  have "count_char (CHR 0x0A) (ToCsvLine fl pm) =
          sum_list (map (count_char (CHR 0x0A)) (string_fields pm)) + 1"
    by (simp add: ToCsvLine_join count_char_append newlines_join
        sum_newlines_csv_fields [OF assms]) (simp add: count_char_def)
  then show ?thesis
    by (simp add: csv_records_def length_split_on_count)
qed

text \<open>
  C10. \<^verbatim>\<open>ToCsvLine\<close> quotes and escapes nothing: the line is the 27 renderings joined by
  single commas, then a newline, each string field appearing as it is. Splitting the line
  at the commas therefore gives 27 fields plus one for every comma inside the eleven string
  fields, and the export holds one line more for every newline inside them. The export is
  one line of exactly 27 fields if and only if none of the string fields holds a comma or a
  newline, and then the fields are the 27 renderings (the float renderings being free of
  commas and newlines).
\<close>

theorem csv_line_no_quoting:
  assumes "CHR '','' \<notin> set (fmt_Sprint fl (Latency pm))"
    and "CHR '','' \<notin> set (fmt_Sprintf fl ''%.3f'' (GetConnectedTime fl pm))"
    and "CHR 0x0A \<notin> set (fmt_Sprint fl (Latency pm))"
    and "CHR 0x0A \<notin> set (fmt_Sprintf fl ''%.3f'' (GetConnectedTime fl pm))"
  shows "ToCsvLine fl pm = join '','' (csv_fields fl pm) @ [CHR 0x0A]
    \<and> length (csv_fields fl pm) = 27
    \<and> length (split_on CHR '','' (ToCsvLine fl pm)) =
        27 + sum_list (map commas (string_fields pm))
    \<and> length (csv_records (ToCsvLine fl pm)) =
        1 + sum_list (map (count_char (CHR 0x0A)) (string_fields pm))
    \<and> (map length (csv_records (ToCsvLine fl pm)) = [27]
        \<longleftrightarrow> (\<forall>s \<in> set (string_fields pm). CHR '','' \<notin> set s \<and> CHR 0x0A \<notin> set s))
    \<and> ((\<forall>s \<in> set (string_fields pm). CHR '','' \<notin> set s \<and> CHR 0x0A \<notin> set s)
        \<longrightarrow> csv_records (ToCsvLine fl pm) = [csv_fields fl pm])"
proof -
  let ?ok = "\<forall>s \<in> set (string_fields pm). CHR '','' \<notin> set s \<and> CHR 0x0A \<notin> set s"
  have n: "length (csv_records (ToCsvLine fl pm)) =
        1 + sum_list (map (count_char (CHR 0x0A)) (string_fields pm))"
    by (rule length_csv_records [OF assms(3,4)])
  have "commas (join '','' (csv_fields fl pm)) = sum_list (map commas (csv_fields fl pm)) + 26"
    by (subst commas_join) (simp_all add: csv_fields_def)
  then have k: "commas (join '','' (csv_fields fl pm)) =
      sum_list (map commas (string_fields pm)) + 26"
    by (simp only: sum_commas_csv_fields [OF assms(1,2)])
  have fwd: "csv_records (ToCsvLine fl pm) = [csv_fields fl pm]" if ok: ?ok
  proof -
    have "\<forall>f \<in> set (csv_fields fl pm). CHR '','' \<notin> set f"
      using ok by (intro csv_fields_comma_free assms(1,2)) simp
    then have "split_on CHR '','' (join '','' (csv_fields fl pm)) = csv_fields fl pm"
      by (intro split_on_join) (simp_all add: csv_fields_def)
    then show ?thesis
      using ok by (simp add: csv_records_line [OF assms(3,4)])
  qed
  have bwd: ?ok if l: "map length (csv_records (ToCsvLine fl pm)) = [27]"
  proof -
    have "length (csv_records (ToCsvLine fl pm)) = 1"
      using arg_cong [OF l, of length] by simp
    then have z: "sum_list (map (count_char (CHR 0x0A)) (string_fields pm)) = 0"
      using n by simp
    then have nl: "\<forall>s \<in> set (string_fields pm). CHR 0x0A \<notin> set s"
      by (simp only: sum_count_char_zero_iff)
    have "length (split_on CHR '','' (join '','' (csv_fields fl pm))) = 27"
      using l by (simp add: csv_records_line [OF assms(3,4) nl])
    then have "sum_list (map commas (string_fields pm)) = 0"
      by (simp add: length_split_on k)
    then have "\<forall>s \<in> set (string_fields pm). CHR '','' \<notin> set s"
      by (simp add: commas_zero_iff)
    then show ?thesis
      using nl by blast
  qed
  have i: "map length (csv_records (ToCsvLine fl pm)) = [27] \<longleftrightarrow> ?ok"
  proof
    assume "map length (csv_records (ToCsvLine fl pm)) = [27]"
    then show ?ok by (rule bwd)
  next
    assume ?ok
    then show "map length (csv_records (ToCsvLine fl pm)) = [27]"
      by (simp add: fwd) (simp add: csv_fields_def)
  qed
  have l: "length (csv_fields fl pm) = 27"
    by (simp add: csv_fields_def)
  show ?thesis
    using fwd by (intro conjI ToCsvLine_join l fields_of_line [OF assms(1,2)] n i) blast
qed

theorem csv_line_no_quoting_witness:
  "CHR '','' \<notin> set (fmt_Sprint whole_f64 (Latency example_peer))
   \<and> CHR 0x0A \<notin> set (fmt_Sprintf whole_f64 ''%.3f'' (GetConnectedTime whole_f64 example_peer))
   \<and> length (split_on CHR '','' (ToCsvLine whole_f64 (example_peer\<lparr>Addrs := ''a,b,c''\<rparr>))) = 29
   \<and> map length (csv_records (ToCsvLine whole_f64 (example_peer\<lparr>Addrs := ''a,b,c''\<rparr>))) \<noteq> [27]
   \<and> length (csv_records
        (ToCsvLine whole_f64 (example_peer\<lparr>UserAgent := [CHR ''a'', CHR 0x0A, CHR ''b'']\<rparr>))) = 2
   \<and> map length (csv_records
        (ToCsvLine whole_f64 (example_peer\<lparr>UserAgent := [CHR ''a'', CHR 0x0A, CHR ''b'']\<rparr>)))
       \<noteq> [27]
   \<and> map length (csv_records
        (ToCsvLine whole_f64 (example_peer\<lparr>UserAgent := [CHR ''a'', CHR 0x0A, CHR ''b'']\<rparr>)))
       = [3, 25]
   \<and> list_all (\<lambda>s. CHR '','' \<notin> set s \<and> CHR 0x0A \<notin> set s) (string_fields example_peer)
   \<and> map length (csv_records (ToCsvLine whole_f64 example_peer)) = [27]
   \<and> csv_records (ToCsvLine whole_f64 example_peer) = [csv_fields whole_f64 example_peer]"
proof -
  let ?c = "example_peer\<lparr>Addrs := ''a,b,c''\<rparr>"
  let ?n = "example_peer\<lparr>UserAgent := [CHR ''a'', CHR 0x0A, CHR ''b'']\<rparr>"
  note w = whole_f64_renderings(1) whole_f64_renderings(2) whole_f64_no_newline(1)
    whole_f64_no_newline(2)
  have kc: "sum_list (map commas (string_fields ?c)) = 2"
    by (simp add: string_fields_def commas_def example_peer_def NewPeer_def)
  have nc: "\<not> (\<forall>s \<in> set (string_fields ?c). CHR '','' \<notin> set s \<and> CHR 0x0A \<notin> set s)"
    by (simp add: string_fields_def example_peer_def NewPeer_def)
  have kn: "sum_list (map (count_char (CHR 0x0A)) (string_fields ?n)) = 1"
    by (simp add: string_fields_def count_char_def example_peer_def NewPeer_def)
  have nn: "\<not> (\<forall>s \<in> set (string_fields ?n). CHR '','' \<notin> set s \<and> CHR 0x0A \<notin> set s)"
    by (simp add: string_fields_def example_peer_def NewPeer_def)
  have ok: "\<forall>s \<in> set (string_fields example_peer). CHR '','' \<notin> set s \<and> CHR 0x0A \<notin> set s"
    by (simp add: string_fields_def example_peer_def NewPeer_def)
  note tc = csv_line_no_quoting [OF w, where pm = "?c"]
  note tn = csv_line_no_quoting [OF w, where pm = "?n"]
  note te = csv_line_no_quoting [OF w, where pm = example_peer]
  have c1: "length (split_on CHR '','' (ToCsvLine whole_f64 ?c)) =
          27 + sum_list (map commas (string_fields ?c))"
    by (rule tc [THEN conjunct2, THEN conjunct2, THEN conjunct1])
  have c2: "map length (csv_records (ToCsvLine whole_f64 ?c)) \<noteq> [27]"
    unfolding tc [THEN conjunct2, THEN conjunct2, THEN conjunct2, THEN conjunct2, THEN conjunct1]
    by (rule nc)
  have n1: "length (csv_records (ToCsvLine whole_f64 ?n)) =
          1 + sum_list (map (count_char (CHR 0x0A)) (string_fields ?n))"
    by (rule tn [THEN conjunct2, THEN conjunct2, THEN conjunct2, THEN conjunct1])
  have n2: "map length (csv_records (ToCsvLine whole_f64 ?n)) \<noteq> [27]"
    unfolding tn [THEN conjunct2, THEN conjunct2, THEN conjunct2, THEN conjunct2, THEN conjunct1]
    by (rule nn)
  have e1: "map length (csv_records (ToCsvLine whole_f64 example_peer)) = [27]"
    unfolding te [THEN conjunct2, THEN conjunct2, THEN conjunct2, THEN conjunct2, THEN conjunct1]
    by (rule ok)
  have e2: "csv_records (ToCsvLine whole_f64 example_peer) = [csv_fields whole_f64 example_peer]"
    using ok by (rule te [THEN conjunct2, THEN conjunct2, THEN conjunct2, THEN conjunct2, THEN conjunct2, THEN mp])
  have v: "map length (csv_records (ToCsvLine whole_f64 ?n)) = [3, 25]"
    by (simp add: csv_records_def ToCsvLine_def example_peer_def NewPeer_def whole_f64_def
        FormatBool_def FormatUint_def Sprintf_d_def decimal_0 GetConnectedTime_def
        totalConnectedTime_def NewMessageMetrics_def GetAllMessagesCount_def)
  show ?thesis
    using c1 c2 n1 n2 e1 e2 ok v unfolding kc kn
    by (simp add: whole_f64_renderings whole_f64_no_newline list_all_iff)
qed

subsection \<open>Connection attempts\<close>

lemma AddNewConnectionAttempt_Attempts:
  "Attempts (AddNewConnectionAttempt FilterError pm succeed err) = Attempts pm + 1"
  by (simp add: AddNewConnectionAttempt_def Let_def)

lemma AddNewConnectionAttempt_Attempted:
  "Attempted (AddNewConnectionAttempt FilterError pm succeed err)"
  by (simp add: AddNewConnectionAttempt_def Let_def)

lemma record_attempts_snoc:
  "record_attempts FilterError pm (calls @ [(succeed, err)]) =
     AddNewConnectionAttempt FilterError (record_attempts FilterError pm calls) succeed err"
  by (simp add: record_attempts_def)

lemma record_attempts_Attempts:
  "Attempts (record_attempts FilterError pm calls) = Attempts pm + of_nat (length calls)"
proof (induction calls rule: rev_induct)
  case Nil
  then show ?case by (simp add: record_attempts_def)
next
  case (snoc x xs)
  then show ?case
    by (cases x) (simp add: record_attempts_snoc AddNewConnectionAttempt_Attempts)
qed

lemma record_attempts_Attempted:
  "calls \<noteq> [] \<Longrightarrow> Attempted (record_attempts FilterError pm calls)"
proof (induction calls rule: rev_induct)
  case Nil
  then show ?case by simp
next
  case (snoc x xs)
  show ?case
    by (cases x) (simp add: record_attempts_snoc AddNewConnectionAttempt_Attempted)
qed

lemma store_Attempted: "Attempted (store ptr m pm) = Attempted pm"
  by (cases ptr) simp_all

lemma CountMessage_Attempted: "Attempted (fst (CountMessage tp pm topicName)) = Attempted pm"
  by (simp add: CountMessage_def store_Attempted split: sum.split)

lemma apply_op_Attempted:
  "Attempted pm \<Longrightarrow> Attempted (apply_op FilterError tp pm op)"
proof (cases op)
  case (Op_AddConnectionEvent direction t)
  assume "Attempted pm"
  then show ?thesis using Op_AddConnectionEvent by (simp add: AddConnectionEvent_def)
next
  case (Op_AddDisconnectionEvent t)
  assume "Attempted pm"
  then show ?thesis using Op_AddDisconnectionEvent by (simp add: AddDisconnectionEvent_def)
next
  case (Op_AddNewConnectionAttempt succeed err)
  then show ?thesis by (simp add: AddNewConnectionAttempt_Attempted)
next
  case Op_ResetDynamicMetrics
  assume "Attempted pm"
  then show ?thesis using Op_ResetDynamicMetrics by (simp add: ResetDynamicMetrics_def)
next
  case (Op_CountMessage topicName)
  assume "Attempted pm"
  then show ?thesis using Op_CountMessage by (simp add: CountMessage_Attempted)
qed

lemma run_ops_Attempted:
  "Attempted pm \<Longrightarrow> Attempted (run_ops FilterError tp pm ops)"
  unfolding run_ops_def
  by (induction ops arbitrary: pm) (simp_all add: apply_op_Attempted)

text \<open>
  C3, as the spec states it, fails on the code: after a successful attempt the error field
  holds the text \<open>None\<close>, with a capital letter, not \<open>none\<close>.
\<close>

theorem record_connection_attempt_counterexample:
  "Error (AddNewConnectionAttempt (\<lambda>e. e) example_peer True []) \<noteq> ''none''
   \<and> Error (AddNewConnectionAttempt (\<lambda>e. e) example_peer True []) = ''None''"
  by (simp add: AddNewConnectionAttempt_def Let_def)

text \<open>
  C3, amended. For every peer and every call of \<^verbatim>\<open>AddNewConnectionAttempt\<close>: Attempts
  grows by 1 (as a \<^verbatim>\<open>uint64\<close>) and Attempted is true afterwards; a successful attempt sets
  Succeed and sets Error to the sentinel \<open>None\<close>; a failed attempt sets Error to the
  normalized form of the raw error and leaves Succeed as it was, so an earlier success is
  not cleared. No other field changes.
\<close>

theorem record_connection_attempt:
  "Attempts (AddNewConnectionAttempt FilterError pm succeed err) = Attempts pm + 1
   \<and> Attempted (AddNewConnectionAttempt FilterError pm succeed err)
   \<and> Succeed (AddNewConnectionAttempt FilterError pm True err)
   \<and> Error (AddNewConnectionAttempt FilterError pm True err) = ''None''
   \<and> Error (AddNewConnectionAttempt FilterError pm False err) = FilterError err
   \<and> Succeed (AddNewConnectionAttempt FilterError pm False err) = Succeed pm
   \<and> AddNewConnectionAttempt FilterError pm succeed err =
       pm\<lparr>Attempts := Attempts pm + 1, Attempted := True,
          Succeed := (succeed \<or> Succeed pm),
          Error := (if succeed then ''None'' else FilterError err)\<rparr>"
  by (simp add: AddNewConnectionAttempt_def Let_def)

text \<open>
  C4. A new peer has not been attempted. After any sequence of N calls of
  \<^verbatim>\<open>AddNewConnectionAttempt\<close> on it Attempts is N as a \<^verbatim>\<open>uint64\<close>, which is the number N
  itself for every N below \<open>2 ^ 64\<close>, and Attempted is true once there was a call. Attempted
  stays true under every sequence of the operations that change a peer, and
  \<^verbatim>\<open>ResetDynamicMetrics\<close>, which zeroes Attempts, leaves it as it is.
\<close>

theorem attempts_counted_attempted_sticky:
  "\<not> Attempted (NewPeer fl peerId)
   \<and> Attempts (record_attempts FilterError (NewPeer fl peerId) calls) = of_nat (length calls)
   \<and> (length calls < 2 ^ 64 \<longrightarrow>
        unat (Attempts (record_attempts FilterError (NewPeer fl peerId) calls)) = length calls)
   \<and> (calls \<noteq> [] \<longrightarrow> Attempted (record_attempts FilterError (NewPeer fl peerId) calls))
   \<and> (Attempted pm \<longrightarrow> Attempted (run_ops FilterError tp pm ops))
   \<and> Attempted (ResetDynamicMetrics pm) = Attempted pm
   \<and> Attempts (ResetDynamicMetrics pm) = 0"
proof -
  have a: "Attempts (record_attempts FilterError (NewPeer fl peerId) calls) = of_nat (length calls)"
    by (simp add: record_attempts_Attempts) (simp add: NewPeer_def)
  have "length calls < 2 ^ 64 \<Longrightarrow>
        unat (Attempts (record_attempts FilterError (NewPeer fl peerId) calls)) = length calls"
    by (simp add: a unat_of_nat)
  then show ?thesis
    using a by (simp add: record_attempts_Attempted run_ops_Attempted ResetDynamicMetrics_def)
      (simp add: NewPeer_def)
qed

theorem attempts_counted_attempted_sticky_witness:
  "length [(False, ''dial timeout''), (True, []), (False, ''connection refused'')] < (2::nat) ^ 64
   \<and> unat (Attempts (record_attempts (\<lambda>e. e) (NewPeer whole_f64 ''p'')
        [(False, ''dial timeout''), (True, []), (False, ''connection refused'')])) = 3
   \<and> [(False, ''dial timeout''), (True, []), (False, ''connection refused'')] \<noteq> []
   \<and> Attempted (record_attempts (\<lambda>e. e) (NewPeer whole_f64 ''p'')
        [(False, ''dial timeout''), (True, []), (False, ''connection refused'')])
   \<and> Attempted (AddNewConnectionAttempt (\<lambda>e. e) example_peer False ''dial timeout'')
   \<and> Attempted (run_ops (\<lambda>e. e) spec_topics
        (AddNewConnectionAttempt (\<lambda>e. e) example_peer False ''dial timeout'')
        [Op_ResetDynamicMetrics, Op_CountMessage ''BeaconBlock'',
         Op_AddConnectionEvent ''inbound'' 0, Op_AddDisconnectionEvent 5000000])"
  using attempts_counted_attempted_sticky [of whole_f64 "''p''" "\<lambda>e. e"
      "[(False, ''dial timeout''), (True, []), (False, ''connection refused'')]"
      "AddNewConnectionAttempt (\<lambda>e. e) example_peer False ''dial timeout''" spec_topics
      "[Op_ResetDynamicMetrics, Op_CountMessage ''BeaconBlock'',
        Op_AddConnectionEvent ''inbound'' 0, Op_AddDisconnectionEvent 5000000]"]
  by (simp add: AddNewConnectionAttempt_Attempted)

subsection \<open>Topic counters\<close>

text \<open>
  C5. For every peer and every topic name that is none of the five known names,
  \<^verbatim>\<open>GetMessageMetrics\<close> returns no counter and the error \<open>unknown topic name\<close>, and counting a
  message of that topic fails with this error and leaves the peer as it was: the five
  counters and the count of all messages are the same before and after.
\<close>

theorem unknown_topic_rejected:
  assumes "topicName \<notin> set (known_topics tp)"
  shows "GetMessageMetrics tp pm topicName =
           Inl (errors_New (''unknown topic name: '' @ topicName))
    \<and> CountMessage tp pm topicName =
        (pm, Some (errors_New (''unknown topic name: '' @ topicName)))
    \<and> BeaconBlock (fst (CountMessage tp pm topicName)) = BeaconBlock pm
    \<and> BeaconAggregateProof (fst (CountMessage tp pm topicName)) = BeaconAggregateProof pm
    \<and> VoluntaryExit (fst (CountMessage tp pm topicName)) = VoluntaryExit pm
    \<and> ProposerSlashing (fst (CountMessage tp pm topicName)) = ProposerSlashing pm
    \<and> AttesterSlashing (fst (CountMessage tp pm topicName)) = AttesterSlashing pm
    \<and> GetAllMessagesCount (fst (CountMessage tp pm topicName)) = GetAllMessagesCount pm"
  using assms by (simp add: known_topics_def GetMessageMetrics_def CountMessage_def)

theorem unknown_topic_rejected_witness:
  "''unknown-topic'' \<notin> set (known_topics spec_topics)
   \<and> GetMessageMetrics spec_topics example_peer ''unknown-topic'' =
       Inl (errors_New ''unknown topic name: unknown-topic'')
   \<and> CountMessage spec_topics example_peer ''unknown-topic'' =
       (example_peer, Some (errors_New ''unknown topic name: unknown-topic''))
   \<and> GetAllMessagesCount (fst (CountMessage spec_topics example_peer ''unknown-topic'')) =
       GetAllMessagesCount example_peer"
proof -
  have h: "''unknown-topic'' \<notin> set (known_topics spec_topics)"
    by (simp add: known_topics_def spec_topics_def)
  show ?thesis
    using h unknown_topic_rejected [OF h, of example_peer] by simp
qed

text \<open>
  C6. With five distinct topic names, for every peer \<^verbatim>\<open>GetMessageMetrics\<close> resolves each
  known topic to the counter of the same name, and counting a message of that topic adds 1
  to that counter and changes nothing else in the peer. For every peer the count of all
  messages is the \<^verbatim>\<open>uint64\<close> sum of the five counters, and it grows by 1 with every counted
  message.
\<close>

theorem known_topics_counted:
  assumes "distinct (known_topics tp)"
  shows "GetMessageMetrics tp pm (topic_BeaconBlock tp) = Inr Ref_BeaconBlock
    \<and> GetMessageMetrics tp pm (topic_BeaconAggregateProof tp) = Inr Ref_BeaconAggregateProof
    \<and> GetMessageMetrics tp pm (topic_VoluntaryExit tp) = Inr Ref_VoluntaryExit
    \<and> GetMessageMetrics tp pm (topic_ProposerSlashing tp) = Inr Ref_ProposerSlashing
    \<and> GetMessageMetrics tp pm (topic_AttesterSlashing tp) = Inr Ref_AttesterSlashing
    \<and> CountMessage tp pm (topic_BeaconBlock tp) =
        (pm\<lparr>BeaconBlock := \<lparr>Count = Count (BeaconBlock pm) + 1\<rparr>\<rparr>, None)
    \<and> CountMessage tp pm (topic_BeaconAggregateProof tp) =
        (pm\<lparr>BeaconAggregateProof := \<lparr>Count = Count (BeaconAggregateProof pm) + 1\<rparr>\<rparr>, None)
    \<and> CountMessage tp pm (topic_VoluntaryExit tp) =
        (pm\<lparr>VoluntaryExit := \<lparr>Count = Count (VoluntaryExit pm) + 1\<rparr>\<rparr>, None)
    \<and> CountMessage tp pm (topic_ProposerSlashing tp) =
        (pm\<lparr>ProposerSlashing := \<lparr>Count = Count (ProposerSlashing pm) + 1\<rparr>\<rparr>, None)
    \<and> CountMessage tp pm (topic_AttesterSlashing tp) =
        (pm\<lparr>AttesterSlashing := \<lparr>Count = Count (AttesterSlashing pm) + 1\<rparr>\<rparr>, None)
    \<and> GetAllMessagesCount pm =
        Count (BeaconBlock pm) + Count (BeaconAggregateProof pm) + Count (VoluntaryExit pm)
          + Count (ProposerSlashing pm) + Count (AttesterSlashing pm)
    \<and> unat (GetAllMessagesCount pm) =
        (unat (Count (BeaconBlock pm)) + unat (Count (BeaconAggregateProof pm))
          + unat (Count (VoluntaryExit pm)) + unat (Count (ProposerSlashing pm))
          + unat (Count (AttesterSlashing pm))) mod 2 ^ 64
    \<and> (\<forall>t \<in> set (known_topics tp).
          GetAllMessagesCount (fst (CountMessage tp pm t)) = GetAllMessagesCount pm + 1)"
proof -
  have r: "GetMessageMetrics tp pm (topic_BeaconBlock tp) = Inr Ref_BeaconBlock"
    "GetMessageMetrics tp pm (topic_BeaconAggregateProof tp) = Inr Ref_BeaconAggregateProof"
    "GetMessageMetrics tp pm (topic_VoluntaryExit tp) = Inr Ref_VoluntaryExit"
    "GetMessageMetrics tp pm (topic_ProposerSlashing tp) = Inr Ref_ProposerSlashing"
    "GetMessageMetrics tp pm (topic_AttesterSlashing tp) = Inr Ref_AttesterSlashing"
    using assms by (auto simp: known_topics_def GetMessageMetrics_def)
  have c: "\<forall>t \<in> set (known_topics tp).
          GetAllMessagesCount (fst (CountMessage tp pm t)) = GetAllMessagesCount pm + 1"
    by (simp add: known_topics_def CountMessage_def r GetAllMessagesCount_def Increment_def)
  have s: "GetAllMessagesCount pm =
        Count (BeaconBlock pm) + Count (BeaconAggregateProof pm) + Count (VoluntaryExit pm)
          + Count (ProposerSlashing pm) + Count (AttesterSlashing pm)"
    by (simp add: GetAllMessagesCount_def)
  have u: "unat (GetAllMessagesCount pm) =
        (unat (Count (BeaconBlock pm)) + unat (Count (BeaconAggregateProof pm))
          + unat (Count (VoluntaryExit pm)) + unat (Count (ProposerSlashing pm))
          + unat (Count (AttesterSlashing pm))) mod 2 ^ 64"
    unfolding s by (simp add: unat_word_ariths mod_simps)
  have m: "\<And>m :: MessageMetrics. Increment m = \<lparr>Count = Count m + 1\<rparr>"
    by (simp add: Increment_def)
  show ?thesis
    using c s u by (simp add: r CountMessage_def m)
qed

theorem known_topics_counted_witness:
  "distinct (known_topics spec_topics)
   \<and> ''VoluntaryExit'' \<in> set (known_topics spec_topics)
   \<and> GetMessageMetrics spec_topics example_peer ''VoluntaryExit'' = Inr Ref_VoluntaryExit
   \<and> Count (VoluntaryExit (fst (CountMessage spec_topics example_peer ''VoluntaryExit''))) = 1
   \<and> Count (BeaconBlock (fst (CountMessage spec_topics example_peer ''VoluntaryExit''))) = 0
   \<and> GetAllMessagesCount (fst (CountMessage spec_topics example_peer ''VoluntaryExit'')) = 1"
proof -
  have h: "distinct (known_topics spec_topics)"
    by (simp add: known_topics_def spec_topics_def)
  have t: "topic_VoluntaryExit spec_topics = ''VoluntaryExit''"
    by (simp add: spec_topics_def)
  have i: "''VoluntaryExit'' \<in> set (known_topics spec_topics)"
    by (simp add: known_topics_def spec_topics_def)
  have z: "Count (VoluntaryExit example_peer) = 0" "Count (BeaconBlock example_peer) = 0"
    "GetAllMessagesCount example_peer = 0"
    by (simp_all add: example_peer_def NewPeer_def NewMessageMetrics_def GetAllMessagesCount_def)
  have k: "GetMessageMetrics spec_topics example_peer (topic_VoluntaryExit spec_topics) =
             Inr Ref_VoluntaryExit"
    "CountMessage spec_topics example_peer (topic_VoluntaryExit spec_topics) =
       (example_peer\<lparr>VoluntaryExit := \<lparr>Count = Count (VoluntaryExit example_peer) + 1\<rparr>\<rparr>, None)"
    "\<forall>t \<in> set (known_topics spec_topics).
       GetAllMessagesCount (fst (CountMessage spec_topics example_peer t)) =
         GetAllMessagesCount example_peer + 1"
    using known_topics_counted [OF h, of example_peer] by simp_all
  have "GetAllMessagesCount (fst (CountMessage spec_topics example_peer ''VoluntaryExit'')) = 1"
    using k(3) i unfolding z by (metis add_0)
  then show ?thesis
    using h i k(1,2) unfolding t by (simp add: z)
qed

subsection \<open>The metrics window\<close>

text \<open>
  C7. For every peer \<^verbatim>\<open>ResetDynamicMetrics\<close> sets Attempts and the five topic counters to
  zero, and every other field, the peer and node identifiers and both histories among
  them, is the same before and after the call.
\<close>

theorem reset_zeroes_exactly_window_fields:
  "Attempts (ResetDynamicMetrics pm) = 0
   \<and> Count (BeaconBlock (ResetDynamicMetrics pm)) = 0
   \<and> Count (BeaconAggregateProof (ResetDynamicMetrics pm)) = 0
   \<and> Count (VoluntaryExit (ResetDynamicMetrics pm)) = 0
   \<and> Count (ProposerSlashing (ResetDynamicMetrics pm)) = 0
   \<and> Count (AttesterSlashing (ResetDynamicMetrics pm)) = 0
   \<and> GetAllMessagesCount (ResetDynamicMetrics pm) = 0
   \<and> PeerId (ResetDynamicMetrics pm) = PeerId pm
   \<and> NodeId (ResetDynamicMetrics pm) = NodeId pm
   \<and> UserAgent (ResetDynamicMetrics pm) = UserAgent pm
   \<and> ClientName (ResetDynamicMetrics pm) = ClientName pm
   \<and> ClientOS (ResetDynamicMetrics pm) = ClientOS pm
   \<and> ClientVersion (ResetDynamicMetrics pm) = ClientVersion pm
   \<and> Pubkey (ResetDynamicMetrics pm) = Pubkey pm
   \<and> Addrs (ResetDynamicMetrics pm) = Addrs pm
   \<and> Ip (ResetDynamicMetrics pm) = Ip pm
   \<and> Country (ResetDynamicMetrics pm) = Country pm
   \<and> City (ResetDynamicMetrics pm) = City pm
   \<and> Latency (ResetDynamicMetrics pm) = Latency pm
   \<and> ConnectedDirection (ResetDynamicMetrics pm) = ConnectedDirection pm
   \<and> IsConnected (ResetDynamicMetrics pm) = IsConnected pm
   \<and> Attempted (ResetDynamicMetrics pm) = Attempted pm
   \<and> Succeed (ResetDynamicMetrics pm) = Succeed pm
   \<and> Error (ResetDynamicMetrics pm) = Error pm
   \<and> ConnectionTimes (ResetDynamicMetrics pm) = ConnectionTimes pm
   \<and> DisconnectionTimes (ResetDynamicMetrics pm) = DisconnectionTimes pm
   \<and> MetadataRequest (ResetDynamicMetrics pm) = MetadataRequest pm
   \<and> MetadataSucceed (ResetDynamicMetrics pm) = MetadataSucceed pm
   \<and> LastExport (ResetDynamicMetrics pm) = LastExport pm
   \<and> totalConnectedTime (ResetDynamicMetrics pm) = totalConnectedTime pm"
  by (simp add: ResetDynamicMetrics_def NewMessageMetrics_def GetAllMessagesCount_def
      totalConnectedTime_def)

subsection \<open>Connected duration: the scale\<close>

lemma Time_Sub_in_range: "is_int64 (t - u) \<Longrightarrow> Time_Sub t u = t - u"
  by (auto simp: Time_Sub_def is_int64_def Let_def)

lemma Milliseconds_sgn: "Duration_Milliseconds d = sgn d * (\<bar>d\<bar> div 1000000)"
  by (simp add: Duration_Milliseconds_def sgn_if)

lemma find_Some_in_set: "find P xs = Some x \<Longrightarrow> x \<in> set xs"
  by (induction xs) (auto split: if_splits)

lemma first_match_ms_find: "first_match_ms c ds = find (\<lambda>d. - 1000000 < d - c) ds"
  by (simp add: first_match_ms_def Milliseconds_Sub_nonneg_iff)

lemma contribution_ms_in_range:
  assumes "\<forall>d \<in> set ds. is_int64 (d - c)"
  shows "contribution_ms c ds = spec_contribution_ms c ds"
proof (cases "find (\<lambda>d. - 1000000 < d - c) ds")
  case None
  then show ?thesis
    by (simp add: contribution_ms_def first_match_ms_find spec_contribution_ms_def)
next
  case (Some d)
  then have "is_int64 (d - c)"
    using assms find_Some_in_set by fastforce
  then have "Duration_Milliseconds (Time_Sub d c) = sgn (d - c) * (\<bar>d - c\<bar> div 1000000)"
    by (simp only: Time_Sub_in_range Milliseconds_sgn)
  then show ?thesis
    using Some by (simp add: contribution_ms_def first_match_ms_find spec_contribution_ms_def)
qed

lemma totalConnectedTime_in_range:
  assumes "\<forall>c \<in> set (ConnectionTimes pm). \<forall>d \<in> set (DisconnectionTimes pm). is_int64 (d - c)"
    and "is_int64 (sum_list (map (\<lambda>c. spec_contribution_ms c (DisconnectionTimes pm))
           (ConnectionTimes pm)))"
  shows "totalConnectedTime pm =
           sum_list (map (\<lambda>c. spec_contribution_ms c (DisconnectionTimes pm)) (ConnectionTimes pm))"
proof -
  have eq: "map (\<lambda>c. contribution_ms c (DisconnectionTimes pm)) (ConnectionTimes pm) =
        map (\<lambda>c. spec_contribution_ms c (DisconnectionTimes pm)) (ConnectionTimes pm)"
    using assms(1) by (intro map_cong refl contribution_ms_in_range) simp
  show ?thesis
    unfolding totalConnectedTime_sum eq using assms(2) by (rule wrap64_id)
qed

text \<open>
  C9. The scale of \<^verbatim>\<open>GetConnectedTime\<close> is milliseconds to minutes. The interval of a matched
  pair is cut to whole milliseconds towards zero, and that number is what the inner loop
  adds to the 64-bit total; the value returned is the total divided by 60000 as a float64.
  Where every interval and the sum fit 64 bits, the total is the sum, over the connection
  instants, of \<open>d - c\<close> cut to whole milliseconds for the matched \<open>d\<close>. A matched pair
  less than one millisecond apart contributes exactly 0: two sessions of 0.6 ms each give
  the total 0, not 1, two sessions of 1.6 ms each give 2, not 3, and one session of
  120000.999999 ms gives 120000 ms, returned as 120000 / 60000.
\<close>

theorem connected_time_scale:
  "Duration_Milliseconds d = sgn d * (\<bar>d\<bar> div 1000000)
   \<and> (is_int64 (d - c) \<longrightarrow> Time_Sub d c = d - c)
   \<and> (is_int64 (tot + m) \<longrightarrow> add_int64 tot m = tot + m)
   \<and> scan_disconnections c ds tot =
       (case first_match_ms c ds of
          None \<Rightarrow> tot
        | Some d' \<Rightarrow> add_int64 tot (Duration_Milliseconds (Time_Sub d' c)))
   \<and> totalConnectedTime pm =
       wrap64 (sum_list (map (\<lambda>c. contribution_ms c (DisconnectionTimes pm)) (ConnectionTimes pm)))
   \<and> (list_all (\<lambda>c. list_all (\<lambda>d. is_int64 (d - c)) (DisconnectionTimes pm))
          (ConnectionTimes pm)
        \<and> is_int64 (sum_list (map (\<lambda>c. spec_contribution_ms c (DisconnectionTimes pm))
             (ConnectionTimes pm)))
        \<longrightarrow> totalConnectedTime pm =
             sum_list (map (\<lambda>c. spec_contribution_ms c (DisconnectionTimes pm))
               (ConnectionTimes pm)))
   \<and> GetConnectedTime fl pm =
       f64_quo fl (f64_of_int64 fl (totalConnectedTime pm)) (f64_of_int64 fl 60000)
   \<and> (first_match_ms c ds = Some d \<and> \<bar>d - c\<bar> < 1000000 \<longrightarrow> contribution_ms c ds = 0)
   \<and> (\<bar>d - c\<bar> < 1000000 \<longrightarrow>
        totalConnectedTime (pm\<lparr>ConnectionTimes := [c], DisconnectionTimes := [d]\<rparr>) = 0)
   \<and> totalConnectedTime
        (pm\<lparr>ConnectionTimes := [0, 10000000], DisconnectionTimes := [600000, 10600000]\<rparr>) = 0
   \<and> totalConnectedTime
        (pm\<lparr>ConnectionTimes := [0, 10000000], DisconnectionTimes := [1600000, 11600000]\<rparr>) = 2
   \<and> totalConnectedTime
        (pm\<lparr>ConnectionTimes := [5000000], DisconnectionTimes := [120005999999]\<rparr>) = 120000
   \<and> GetConnectedTime fl
        (pm\<lparr>ConnectionTimes := [5000000], DisconnectionTimes := [120005999999]\<rparr>) =
       f64_quo fl (f64_of_int64 fl 120000) (f64_of_int64 fl 60000)
   \<and> Duration_Milliseconds 1999999 = 1
   \<and> Duration_Milliseconds (- 1999999) = - 1"
proof -
  have m: "\<bar>d - c\<bar> < 1000000 \<Longrightarrow> Duration_Milliseconds (Time_Sub d c) = 0"
    by (simp add: Time_Sub_small Milliseconds_small)
  have a: "is_int64 (tot + m) \<longrightarrow> add_int64 tot m = tot + m"
    by (simp add: add_int64_def wrap64_id)
  have r: "list_all (\<lambda>c. list_all (\<lambda>d. is_int64 (d - c)) (DisconnectionTimes pm))
          (ConnectionTimes pm)
        \<and> is_int64 (sum_list (map (\<lambda>c. spec_contribution_ms c (DisconnectionTimes pm))
             (ConnectionTimes pm)))
        \<longrightarrow> totalConnectedTime pm =
             sum_list (map (\<lambda>c. spec_contribution_ms c (DisconnectionTimes pm))
               (ConnectionTimes pm))"
    using totalConnectedTime_in_range [of pm] by (simp add: list_all_iff)
  have p: "first_match_ms c ds = Some d \<and> \<bar>d - c\<bar> < 1000000 \<longrightarrow> contribution_ms c ds = 0"
    by (simp add: contribution_ms_def m)
  have q: "\<bar>d - c\<bar> < 1000000 \<longrightarrow>
        totalConnectedTime (pm\<lparr>ConnectionTimes := [c], DisconnectionTimes := [d]\<rparr>) = 0"
    by (simp add: totalConnectedTime_def m add_int64_def wrap64_def)
  have e: "totalConnectedTime
        (pm\<lparr>ConnectionTimes := [0, 10000000], DisconnectionTimes := [600000, 10600000]\<rparr>) = 0"
    "totalConnectedTime
        (pm\<lparr>ConnectionTimes := [0, 10000000], DisconnectionTimes := [1600000, 11600000]\<rparr>) = 2"
    "totalConnectedTime
        (pm\<lparr>ConnectionTimes := [5000000], DisconnectionTimes := [120005999999]\<rparr>) = 120000"
    by (simp_all add: totalConnectedTime_def Time_Sub_def Duration_Milliseconds_def add_int64_def
        wrap64_def minDuration_def maxDuration_def)
  have g: "GetConnectedTime fl
        (pm\<lparr>ConnectionTimes := [5000000], DisconnectionTimes := [120005999999]\<rparr>) =
       f64_quo fl (f64_of_int64 fl 120000) (f64_of_int64 fl 60000)"
    by (simp add: GetConnectedTime_def e(3))
  have t: "Duration_Milliseconds 1999999 = 1" "Duration_Milliseconds (- 1999999) = - 1"
    by (simp_all add: Duration_Milliseconds_def)
  have s: "scan_disconnections c ds tot =
       (case first_match_ms c ds of
          None \<Rightarrow> tot
        | Some d' \<Rightarrow> add_int64 tot (Duration_Milliseconds (Time_Sub d' c)))"
    by (rule scan_disconnections_eq)
  have u: "totalConnectedTime pm =
       wrap64 (sum_list (map (\<lambda>c. contribution_ms c (DisconnectionTimes pm)) (ConnectionTimes pm)))"
    by (rule totalConnectedTime_sum)
  have v: "GetConnectedTime fl pm =
       f64_quo fl (f64_of_int64 fl (totalConnectedTime pm)) (f64_of_int64 fl 60000)"
    by (simp add: GetConnectedTime_def)
  have i: "is_int64 (d - c) \<longrightarrow> Time_Sub d c = d - c"
    by (simp add: Time_Sub_in_range)
  show ?thesis
    by (intro conjI Milliseconds_sgn i a s u r v p q e g t)
qed

theorem connected_time_scale_witness:
  "first_match_ms 2000000 [1500000, 2999999] = Some 1500000
   \<and> \<bar>1500000 - 2000000\<bar> < (1000000::int)
   \<and> contribution_ms 2000000 [1500000, 2999999] = 0
   \<and> \<bar>2999999 - 2000000\<bar> < (1000000::int)
   \<and> totalConnectedTime
        (example_peer\<lparr>ConnectionTimes := [2000000], DisconnectionTimes := [2999999]\<rparr>) = 0
   \<and> is_int64 (120005999999 - 5000000)
   \<and> Time_Sub 120005999999 5000000 = 120000999999
   \<and> is_int64 (7 + 120000)
   \<and> add_int64 7 120000 = 120007
   \<and> list_all (\<lambda>c. list_all (\<lambda>d. is_int64 (d - c)) [1600000, 11600000, 130000000000])
        [0, 10000000, 9999999999]
   \<and> totalConnectedTime
        (example_peer\<lparr>ConnectionTimes := [0, 10000000, 9999999999],
           DisconnectionTimes := [1600000, 11600000, 130000000000]\<rparr>) = 120002
   \<and> GetConnectedTime whole_f64
        (example_peer\<lparr>ConnectionTimes := [5000000], DisconnectionTimes := [120005999999]\<rparr>) = 2"
proof -
  let ?p = "example_peer\<lparr>ConnectionTimes := [0, 10000000, 9999999999],
           DisconnectionTimes := [1600000, 11600000, 130000000000]\<rparr>"
  have f: "first_match_ms 2000000 [1500000, 2999999] = Some 1500000"
    by (simp add: first_match_ms_def Time_Sub_def Duration_Milliseconds_def minDuration_def
        maxDuration_def)
  have r: "list_all (\<lambda>c. list_all (\<lambda>d. is_int64 (d - c)) (DisconnectionTimes ?p))
            (ConnectionTimes ?p)"
    by (simp add: is_int64_def minDuration_def maxDuration_def)
  have s: "sum_list (map (\<lambda>c. spec_contribution_ms c (DisconnectionTimes ?p)) (ConnectionTimes ?p))
             = 120002"
    by (simp add: spec_contribution_ms_def)
  have i: "is_int64 (120005999999 - 5000000)" "is_int64 (7 + 120000)"
    by (simp_all add: is_int64_def minDuration_def maxDuration_def)
  have k: "is_int64 (sum_list (map (\<lambda>c. spec_contribution_ms c (DisconnectionTimes ?p))
             (ConnectionTimes ?p)))"
    unfolding s by (simp add: is_int64_def minDuration_def maxDuration_def)
  have t: "totalConnectedTime ?p = 120002"
    using connected_time_scale [of 0 0 0 0 "[]" ?p whole_f64] r k s by simp
  have z: "contribution_ms 2000000 [1500000, 2999999] = 0"
    "totalConnectedTime
        (example_peer\<lparr>ConnectionTimes := [2000000], DisconnectionTimes := [2999999]\<rparr>) = 0"
    using f connected_time_scale [of 1500000 2000000 0 0 "[1500000, 2999999]" example_peer whole_f64]
      connected_time_scale [of 2999999 2000000 0 0 "[]" example_peer whole_f64]
    by simp_all
  have b: "Time_Sub 120005999999 5000000 = 120000999999" "add_int64 7 120000 = 120007"
    using i connected_time_scale [of 120005999999 5000000 7 120000 "[]" example_peer whole_f64]
    by simp_all
  have g: "GetConnectedTime whole_f64
        (example_peer\<lparr>ConnectionTimes := [5000000], DisconnectionTimes := [120005999999]\<rparr>) = 2"
    using connected_time_scale [of 0 0 0 0 "[]" example_peer whole_f64]
    by (simp add: whole_f64_def)
  show ?thesis
    using f z t b g i r by simp
qed

end
